theory Spec2Isabelle
  imports Main "HOL-Library.Sublist" "HOL-Library.Word"
begin

section \<open>Join retry policy (joinMeetWithRetry, processMeetingJoin)\<close>

text \<open>
  Modelled from the spec: the declarations of the error classes KnownError and
  WaitingAtLobbyRetryError (module \<open>error\<close>) are missing.  The spec gives a known failure
  the attributes kind, message, retryable and maxRetries, and sets it apart from
  unclassified failures.  The fields below are those the retry code reads (\<open>name\<close>,
  \<open>message\<close>, \<open>retryable\<close>, \<open>maxRetries\<close>) and the constructor arguments that
  ZoomBot.joinMeeting passes (\<open>message\<close>, \<open>documentBodyText\<close>, \<open>retryable\<close>,
  \<open>maxRetries\<close>).  \<open>KnownError\<close> stands for every KnownError instance that is not a
  WaitingAtLobbyRetryError, \<open>OtherError\<close> for every unclassified failure.
\<close>

datatype error =
    WaitingAtLobbyRetryError string string bool int
  | KnownError string string bool int
  | OtherError string

text \<open>Lines written to the logger, and the observable events of one run.\<close>

datatype log_line =
    LobbyNotRetrying string
  | NotRetryable string string
  | TriesConsumed int string string
  | RetryAttempt int int
  | StartedRecording
  | FinishedRecording
  | KnownErrorExit error
  | ErrorAfterRetries error
  | PermanentlyFailed string

datatype event =
    Invoke
  | Sleep int
  | LogInfo log_line
  | LogWarn log_line
  | LogError log_line

type_synonym outcome = "error + unit"

text \<open>
  \<open>config.retryCount\<close> is passed as \<open>cfg\<close> (an integer; the default is 2).  The
  processor is an effectful callback: \<open>processor k\<close> is what its \<open>k\<close>-th invocation
  does, \<open>None\<close> for a normal return and \<open>Some e\<close> for a raised failure.  The result is
  the trace of events together with the way the call ends: \<open>Inr ()\<close> for a normal
  return, \<open>Inl e\<close> for the failure thrown to the caller.
\<close>

function joinMeetWithRetry ::
  "int \<Rightarrow> (nat \<Rightarrow> error option) \<Rightarrow> nat \<Rightarrow> int \<Rightarrow> event list \<times> outcome" where
  "joinMeetWithRetry cfg processor k retryCount =
     (case processor k of
        None \<Rightarrow> ([Invoke], Inr ())
      | Some err \<Rightarrow>
          (case err of
             WaitingAtLobbyRetryError msg body r m \<Rightarrow>
               ([Invoke, LogError (LobbyNotRetrying msg)], Inl err)
           | KnownError nm msg r m \<Rightarrow>
               if \<not> r then ([Invoke, LogError (NotRetryable nm msg)], Inl err)
               else if retryCount + 1 \<ge> m
                 then ([Invoke, LogError (TriesConsumed m nm msg)], Inl err)
               else if retryCount + 1 \<le> cfg
                 then (case joinMeetWithRetry cfg processor (Suc k) (retryCount + 1) of
                         (tr, res) \<Rightarrow>
                           ([Invoke, Sleep ((retryCount + 1) * 30000)]
                            @ (if retryCount + 1 \<noteq> 0
                               then [LogWarn (RetryAttempt (retryCount + 1) cfg)] else [])
                            @ tr, res))
               else ([Invoke, Sleep ((retryCount + 1) * 30000)], Inl err)
           | OtherError msg \<Rightarrow>
               if retryCount + 1 \<le> cfg
                 then (case joinMeetWithRetry cfg processor (Suc k) (retryCount + 1) of
                         (tr, res) \<Rightarrow>
                           ([Invoke, Sleep ((retryCount + 1) * 30000)]
                            @ (if retryCount + 1 \<noteq> 0
                               then [LogWarn (RetryAttempt (retryCount + 1) cfg)] else [])
                            @ tr, res))
               else ([Invoke, Sleep ((retryCount + 1) * 30000)], Inl err)))"
  by pat_completeness auto
termination
  by (relation "measure (\<lambda>(cfg, processor, k, retryCount). nat (cfg - retryCount))") auto

declare joinMeetWithRetry.simps [simp del]

text \<open>A processor that raises the same failure on every attempt.\<close>

definition always_raise :: "error \<Rightarrow> nat \<Rightarrow> error option" where
  "always_raise e k = Some e"

text \<open>What a trace shows: how often the processor ran, and the delays slept, in order.\<close>

fun invocations :: "event list \<Rightarrow> nat" where
  "invocations [] = 0"
| "invocations (Invoke # es) = Suc (invocations es)"
| "invocations (e # es) = invocations es"

fun sleeps :: "event list \<Rightarrow> int list" where
  "sleeps [] = []"
| "sleeps (Sleep ms # es) = ms # sleeps es"
| "sleeps (e # es) = sleeps es"


text \<open>
  \<open>error instanceof KnownError\<close>.  Whether WaitingAtLobbyRetryError is a subclass of
  KnownError is decided by the missing class declarations; the parameter
  \<open>lobbyExtendsKnown\<close> carries that fact.  It only selects the wording of one log line.
\<close>

definition instanceofKnownError :: "bool \<Rightarrow> error \<Rightarrow> bool" where
  "instanceofKnownError lobbyExtendsKnown e =
     (case e of
        WaitingAtLobbyRetryError msg body r m \<Rightarrow> lobbyExtendsKnown
      | KnownError nm msg r m \<Rightarrow> True
      | OtherError msg \<Rightarrow> False)"

text \<open>
  processMeetingJoin starts the retry loop at \<open>retryCount = 0\<close> and wraps it in a
  try/catch whose handler only logs.  \<open>getErrorType\<close> (from the logger utilities) is a
  parameter.
\<close>

definition processMeetingJoin ::
  "bool \<Rightarrow> (error \<Rightarrow> string) \<Rightarrow> int \<Rightarrow> (nat \<Rightarrow> error option) \<Rightarrow> event list \<times> outcome" where
  "processMeetingJoin lobbyExtendsKnown getErrorType cfg processor =
     (case joinMeetWithRetry cfg processor 0 0 of
        (tr, Inr u) \<Rightarrow> ([LogInfo StartedRecording] @ tr @ [LogInfo FinishedRecording], Inr ())
      | (tr, Inl err) \<Rightarrow>
          ([LogInfo StartedRecording] @ tr
           @ [if instanceofKnownError lobbyExtendsKnown err
              then LogError (KnownErrorExit err) else LogError (ErrorAfterRetries err),
              LogError (PermanentlyFailed (getErrorType err))],
           Inr ()))"

section \<open>Status history of one session (ZoomBot.join)\<close>

datatype BotStatus = processing | joined | finished | failed

text \<open>
  joinMeeting, seen from the status history: the navigation, registration and lobby
  steps run first and any of them may raise (\<open>nav\<close>); then \<open>pushState('joined')\<close>;
  then recordMeetingPage, which may raise (\<open>rec\<close>); then \<open>pushState('finished')\<close>.
\<close>

definition joinMeeting ::
  "error option \<Rightarrow> error option \<Rightarrow> BotStatus list \<Rightarrow> BotStatus list \<times> outcome" where
  "joinMeeting nav rec st =
     (case nav of
        Some e \<Rightarrow> (st, Inl e)
      | None \<Rightarrow>
          (case rec of
             Some e \<Rightarrow> (st @ [joined], Inl e)
           | None \<Rightarrow> (st @ [joined] @ [finished], Inr ())))"

text \<open>What the collaborators called by ZoomBot.join do in one run.\<close>

record join_env =
  nav_outcome :: "error option"
  record_outcome :: "error option"
  patch_outcome :: "error option"
  upload_outcome :: "error option"
  patch_in_catch_outcome :: "error option"
  lobby_handler_outcome :: "error option"

definition isWaitingAtLobbyRetryError :: "error \<Rightarrow> bool" where
  "isWaitingAtLobbyRetryError e =
     (case e of WaitingAtLobbyRetryError msg body r m \<Rightarrow> True | _ \<Rightarrow> False)"

text \<open>
  The catch block of ZoomBot.join.  The result is the status array, the snapshots
  handed to patchBotStatus, and the failure rethrown.
\<close>

definition join_catch ::
  "join_env \<Rightarrow> BotStatus list \<Rightarrow> error \<Rightarrow> BotStatus list \<times> BotStatus list list \<times> outcome" where
  "join_catch env st err =
     (let st' = (if finished \<in> set st then st else st @ [failed]) in
      case patch_in_catch_outcome env of
        Some e2 \<Rightarrow> (st', [st'], Inl e2)
      | None \<Rightarrow>
          if isWaitingAtLobbyRetryError err
          then (case lobby_handler_outcome env of
                  Some e3 \<Rightarrow> (st', [st'], Inl e3)
                | None \<Rightarrow> (st', [st'], Inl err))
          else (st', [st'], Inl err))"

definition join :: "join_env \<Rightarrow> BotStatus list \<times> BotStatus list list \<times> outcome" where
  "join env =
     (case joinMeeting (nav_outcome env) (record_outcome env) [processing] of
        (st, Inl e) \<Rightarrow> join_catch env st e
      | (st, Inr u) \<Rightarrow>
          (case patch_outcome env of
             Some e \<Rightarrow> (case join_catch env st e of (st', reps, res) \<Rightarrow> (st', st # reps, res))
           | None \<Rightarrow>
               (case upload_outcome env of
                  Some e \<Rightarrow> (case join_catch env st e of (st', reps, res) \<Rightarrow> (st', st # reps, res))
                | None \<Rightarrow> (st, [st], Inr ()))))"

section \<open>Pipeline sinks (FFmpegRecorder, YouTubeLiveStreamer)\<close>

text \<open>
  The handle of a spawned subprocess, as far as the sinks read it: whether it has a stdin
  stream, the \<open>killed\<close> flag and the exit code (\<open>None\<close> while the process has not
  exited).
\<close>

record child =
  has_stdin :: bool
  killed :: bool
  exitCode :: "int option"

datatype signal = SIGTERM | SIGKILL

type_synonym byte = "8 word"

datatype sink_event =
    StdinWrite string
  | StdinChunk "byte list"
  | StdinEnd
  | Kill signal
  | Wait nat
  | Drain
  | Exited
  | Warn string

text \<open>How a promise ends: resolved, rejected with a message, or never settled.\<close>

datatype settle = Resolved | Rejected string | Pending

text \<open>
  What the subprocess and its stdin stream do during one call of stop: whether writing
  to stdin raises, whether the subprocess exits within the grace period once it has
  received the quit text, and whether it exits on SIGTERM.
\<close>

record proc_env =
  write_throws :: bool
  exits_on_quit :: bool
  exits_on_sigterm :: bool

text \<open>
  \<open>kill\<close> of a handle sends the signal and sets \<open>killed\<close> only while the process has
  not exited.
\<close>

definition kill :: "child \<Rightarrow> child" where
  "kill p = (if exitCode p = None then p\<lparr>killed := True\<rparr> else p)"

definition quit_text :: string where
  "quit_text = [CHR ''q'', CHR 0x0A]"

text \<open>
  YouTubeLiveStreamer.stop.  The promise is resolved by the handler of the subprocess's
  exit event and nowhere else once a handle is present.
\<close>

definition YouTubeLiveStreamer_stop ::
  "proc_env \<Rightarrow> child option \<Rightarrow> child option \<times> sink_event list \<times> settle" where
  "YouTubeLiveStreamer_stop env process =
     (case process of
        None \<Rightarrow> (None, [], Resolved)
      | Some proc \<Rightarrow>
          if has_stdin proc \<and> write_throws env then
            (if exitCode proc = None \<and> exits_on_sigterm env
             then (None, [Warn ''Failed to send quit signal to ffmpeg live'', Kill SIGTERM, Exited],
                   Resolved)
             else if killed (kill proc)
             then (Some (kill proc),
                   [Warn ''Failed to send quit signal to ffmpeg live'', Kill SIGTERM, Wait 15000],
                   Pending)
             else (Some (kill (kill proc)),
                   [Warn ''Failed to send quit signal to ffmpeg live'', Kill SIGTERM, Wait 15000,
                    Warn ''ffmpeg live did not exit, sending SIGTERM'', Kill SIGTERM],
                   Pending))
          else
            (let sent = (if has_stdin proc then [StdinWrite quit_text, StdinEnd] else []) in
             if has_stdin proc \<and> exitCode proc = None \<and> exits_on_quit env
             then (None, sent @ [Exited], Resolved)
             else if killed proc then (Some proc, sent @ [Wait 15000], Pending)
             else if exitCode proc = None \<and> exits_on_sigterm env
             then (None,
                   sent @ [Wait 15000, Warn ''ffmpeg live did not exit, sending SIGTERM'',
                           Kill SIGTERM, Exited],
                   Resolved)
             else (Some (kill proc),
                   sent @ [Wait 15000, Warn ''ffmpeg live did not exit, sending SIGTERM'',
                           Kill SIGTERM],
                   Pending)))"

text \<open>
  FFmpegRecorder.stop.  Besides the exit handler, the promise is resolved at once when
  the handle is already marked killed or carries an exit code.  After the SIGTERM of
  the 15 second timer the \<open>killed\<close> flag is set, so the 5 second SIGKILL timer finds
  nothing to do.
\<close>

definition FFmpegRecorder_stop ::
  "proc_env \<Rightarrow> child option \<Rightarrow> child option \<times> sink_event list \<times> settle" where
  "FFmpegRecorder_stop env ffmpegProcess =
     (case ffmpegProcess of
        None \<Rightarrow> (None, [Warn ''No ffmpeg process to stop''], Resolved)
      | Some proc \<Rightarrow>
          (let first =
                 (if has_stdin proc
                  then (if write_throws env
                        then (kill proc,
                              [Warn ''Could not send quit signal to ffmpeg stdin'', Kill SIGTERM])
                        else (proc, [StdinWrite quit_text, StdinEnd]))
                  else (proc, []));
               p1 = fst first; ev1 = snd first
           in if killed p1 \<or> exitCode p1 \<noteq> None then (None, ev1, Resolved)
              else if has_stdin proc \<and> exits_on_quit env then (None, ev1 @ [Exited], Resolved)
              else if exits_on_sigterm env
              then (None,
                    ev1 @ [Wait 15000, Warn ''ffmpeg did not exit after 15s, sending SIGTERM'',
                           Kill SIGTERM, Exited],
                    Resolved)
              else (Some (kill p1),
                    ev1 @ [Wait 15000, Warn ''ffmpeg did not exit after 15s, sending SIGTERM'',
                           Kill SIGTERM, Wait 5000],
                    Pending)))"

text \<open>
  YouTubeLiveStreamer.writeChunk.  \<open>write_raises\<close> is the error of a stdin write that
  raises, \<open>canWrite\<close> the value the write returns, \<open>drain_fires\<close> whether the stream
  ever emits its drain event afterwards.
\<close>

record write_env =
  write_raises :: "string option"
  canWrite :: bool
  drain_fires :: bool

definition writeChunk ::
  "write_env \<Rightarrow> child option \<Rightarrow> byte list \<Rightarrow> sink_event list \<times> settle" where
  "writeChunk env process chunk =
     (case process of
        None \<Rightarrow> ([], Rejected ''ffmpeg live process is not running'')
      | Some proc \<Rightarrow>
          if \<not> has_stdin proc then ([], Rejected ''ffmpeg live process is not running'')
          else (case write_raises env of
                  Some msg \<Rightarrow> ([], Rejected msg)
                | None \<Rightarrow>
                    if canWrite env then ([StdinChunk chunk], Resolved)
                    else if drain_fires env then ([StdinChunk chunk, Drain], Resolved)
                    else ([StdinChunk chunk], Pending)))"

section \<open>In-page recorder (RecordingTask.execute)\<close>

text \<open>
  A chunk handed to the dataavailable handler is a blob; \<open>event.data.size\<close> is its
  number of bytes.  \<open>buffer_fails\<close> says that reading the blob into an array buffer
  raises, \<open>send_fails\<close> that the exposed send function raises; both are caught and
  logged by the handler.
\<close>

record blob_event =
  data :: "byte list"
  buffer_fails :: bool
  send_fails :: bool

datatype page_event =
    ConsoleWarn string
  | ConsoleError string
  | SendChunkToServer "byte list"

definition ondataavailable :: "blob_event \<Rightarrow> page_event list" where
  "ondataavailable ev =
     (if length (data ev) = 0 then [ConsoleWarn ''Received empty chunk...'']
      else if buffer_fails ev then [ConsoleError ''Error uploading chunk:'']
      else if send_fails ev
        then [SendChunkToServer (data ev), ConsoleError ''Error uploading chunk:'']
      else [SendChunkToServer (data ev)])"

text \<open>The media recorder fires the handler once per chunk, in order.\<close>

fun recorder_events :: "blob_event list \<Rightarrow> page_event list" where
  "recorder_events [] = []"
| "recorder_events (ev # evs) = ondataavailable ev @ recorder_events evs"

fun delivered :: "page_event list \<Rightarrow> byte list list" where
  "delivered [] = []"
| "delivered (SendChunkToServer c # es) = c # delivered es"
| "delivered (e # es) = delivered es"

subsection \<open>The duration ceiling\<close>

text \<open>
  \<open>config.maxRecordingDuration\<close>: the value of MAX_RECORDING_DURATION_MINUTES when it is
  set (taken here as a number of minutes), otherwise 180.
\<close>

definition maxRecordingDuration :: "nat option \<Rightarrow> nat" where
  "maxRecordingDuration env_minutes = (case env_minutes of Some m \<Rightarrow> m | None \<Rightarrow> 180)"

text \<open>recordMeetingPage turns the minutes into the milliseconds handed to RecordingTask.\<close>

definition recording_duration :: "nat \<Rightarrow> nat" where
  "recording_duration minutes = minutes * 60 * 1000"

text \<open>
  The state of the page script on a clock counted in milliseconds: whether the media
  recorder is recording, when it was started and stopped, the deadline of the pending
  ceiling timer \<open>timeoutId\<close> (\<open>None\<close> when there is none or it was cleared), and how often
  the end of the meeting was reported to the host process.
\<close>

record page_state =
  clock :: nat
  recorder_active :: bool
  started_at :: "nat option"
  stopped_at :: "nat option"
  timeoutId :: "nat option"
  meet_end_calls :: nat

text \<open>
  The page's timer takes its delay as a signed 32-bit number of milliseconds: a larger
  delay wraps around, and a delay that wraps to a negative number counts as zero.
\<close>

definition timer_delay :: "nat \<Rightarrow> nat" where
  "timer_delay ms = (if ms mod 2 ^ 32 < 2 ^ 31 then ms mod 2 ^ 32 else 0)"

text \<open>
  startRecording returns at once when the media devices API is missing; otherwise it
  starts the recorder and arms the ceiling timer with \<open>duration\<close>.
\<close>

definition startRecording :: "bool \<Rightarrow> nat \<Rightarrow> page_state \<Rightarrow> page_state" where
  "startRecording has_media duration s =
     (if \<not> has_media then s
      else s\<lparr>recorder_active := True, started_at := Some (clock s),
             timeoutId := Some (clock s + timer_delay duration)\<rparr>)"

text \<open>
  stopTheRecording stops the recorder first; stopping a recorder that is not recording
  raises, and the rest of the function is skipped.
\<close>

definition stopTheRecording :: "page_state \<Rightarrow> page_state" where
  "stopTheRecording s =
     (if \<not> recorder_active s then s
      else s\<lparr>recorder_active := False, stopped_at := Some (clock s), timeoutId := None,
             meet_end_calls := Suc (meet_end_calls s)\<rparr>)"

text \<open>
  Time passes up to \<open>t\<close>: a pending ceiling timer whose deadline is reached fires at its
  deadline and calls stopTheRecording.
\<close>

definition advance_to :: "nat \<Rightarrow> page_state \<Rightarrow> page_state" where
  "advance_to t s =
     (case timeoutId s of
        None \<Rightarrow> s\<lparr>clock := max (clock s) t\<rparr>
      | Some d \<Rightarrow>
          if d \<le> t
          then (stopTheRecording (s\<lparr>clock := max (clock s) d, timeoutId := None\<rparr>))
                 \<lparr>clock := max (max (clock s) d) t\<rparr>
          else s\<lparr>clock := max (clock s) t\<rparr>)"

text \<open>
  The end conditions detected in the page (lone participant, silence, host ended the
  meeting) call stopTheRecording when they fire; \<open>run_page ds\<close> lets them fire at the
  times \<open>ds\<close>, in order.
\<close>

fun run_page :: "nat list \<Rightarrow> page_state \<Rightarrow> page_state" where
  "run_page [] s = s"
| "run_page (d # ds) s = run_page ds (stopTheRecording (advance_to d s))"

text \<open>
  The invariant of a page that started recording at \<open>t0\<close> with its ceiling timer due at
  \<open>dl\<close>: while the recorder runs the timer is pending and its deadline has not passed;
  once it has stopped, it stopped no later than \<open>dl\<close>.
\<close>

definition ceiling_inv :: "nat \<Rightarrow> nat \<Rightarrow> page_state \<Rightarrow> bool" where
  "ceiling_inv t0 dl s \<longleftrightarrow>
     started_at s = Some t0 \<and>
     (if recorder_active s then timeoutId s = Some dl \<and> clock s \<le> dl
      else timeoutId s = None \<and> (case stopped_at s of None \<Rightarrow> False | Some ts \<Rightarrow> ts \<le> dl))"

section \<open>The retry policy, verified\<close>

text \<open>
  C1 (as amended).  A KnownError with \<open>retryable = true\<close> and \<open>maxRetries = 2\<close> that
  is raised on every attempt, with the retry count starting at 0 and
  \<open>config.retryCount\<close> at least 1: the processor runs twice in all (one retry), 30
  seconds are slept before the retry, and the second failure is rethrown with the line
  "2 tries consumed".  \<open>maxRetries\<close> bounds the number of tries, so there is no second
  retry and no 60 second delay.
\<close>

theorem known_retryable_two_tries:
  assumes "1 \<le> cfg"
  shows "joinMeetWithRetry cfg (always_raise (KnownError nm msg True 2)) k 0 =
           ([Invoke, Sleep 30000, LogWarn (RetryAttempt 1 cfg), Invoke,
             LogError (TriesConsumed 2 nm msg)],
            Inl (KnownError nm msg True 2))
         \<and> invocations (fst (joinMeetWithRetry cfg (always_raise (KnownError nm msg True 2)) k 0)) = 2
         \<and> sleeps (fst (joinMeetWithRetry cfg (always_raise (KnownError nm msg True 2)) k 0))
             = [30000]"
proof -
  have second: "joinMeetWithRetry cfg (always_raise (KnownError nm msg True 2)) (Suc k) 1 =
      ([Invoke, LogError (TriesConsumed 2 nm msg)], Inl (KnownError nm msg True 2))"
    by (subst joinMeetWithRetry.simps) (simp add: always_raise_def)
  have first: "joinMeetWithRetry cfg (always_raise (KnownError nm msg True 2)) k 0 =
           ([Invoke, Sleep 30000, LogWarn (RetryAttempt 1 cfg), Invoke,
             LogError (TriesConsumed 2 nm msg)],
            Inl (KnownError nm msg True 2))"
    using assms second by (subst joinMeetWithRetry.simps) (simp add: always_raise_def)
  show ?thesis by (simp add: first)
qed

theorem known_retryable_two_tries_witness:
  "(1::int) \<le> 2 \<and>
   joinMeetWithRetry 2 (always_raise (KnownError ''KnownError'' ''join failed'' True 2)) 0 0 =
     ([Invoke, Sleep 30000, LogWarn (RetryAttempt 1 2), Invoke,
       LogError (TriesConsumed 2 ''KnownError'' ''join failed'')],
      Inl (KnownError ''KnownError'' ''join failed'' True 2))"
  using known_retryable_two_tries [of 2 "''KnownError''" "''join failed''" 0] by simp

text \<open>
  The claim as it was stated (three invocations, delays of 30 and 60 seconds) fails
  under the default \<open>config.retryCount = 2\<close>.
\<close>

theorem retried_twice_counterexample:
  "\<not> (invocations (fst (joinMeetWithRetry 2
          (always_raise (KnownError ''KnownError'' ''join failed'' True 2)) 0 0)) = 3
      \<and> sleeps (fst (joinMeetWithRetry 2
          (always_raise (KnownError ''KnownError'' ''join failed'' True 2)) 0 0))
          = [30000, 60000])"
  by (simp add: joinMeetWithRetry.simps always_raise_def)

text \<open>
  C2.  When the processor raises WaitingAtLobbyRetryError, joinMeetWithRetry rethrows
  that failure at once: the processor ran once, nothing was slept, whatever the retry
  count, the configured ceiling and the fields of the failure.
\<close>

theorem lobby_failure_not_retried:
  assumes "processor k = Some (WaitingAtLobbyRetryError msg body r m)"
  shows "joinMeetWithRetry cfg processor k retryCount =
           ([Invoke, LogError (LobbyNotRetrying msg)],
            Inl (WaitingAtLobbyRetryError msg body r m))
         \<and> invocations (fst (joinMeetWithRetry cfg processor k retryCount)) = 1
         \<and> sleeps (fst (joinMeetWithRetry cfg processor k retryCount)) = []"
  using assms
  by (subst joinMeetWithRetry.simps, subst joinMeetWithRetry.simps,
      subst joinMeetWithRetry.simps) simp

theorem lobby_failure_not_retried_witness:
  "always_raise (WaitingAtLobbyRetryError ''Zoom bot could not enter the meeting...'' '''' False 0) 0
     = Some (WaitingAtLobbyRetryError ''Zoom bot could not enter the meeting...'' '''' False 0)
   \<and> joinMeetWithRetry 2
        (always_raise (WaitingAtLobbyRetryError ''Zoom bot could not enter the meeting...'' ''''
           False 0))
        0 0 =
       ([Invoke, LogError (LobbyNotRetrying ''Zoom bot could not enter the meeting...'')],
        Inl (WaitingAtLobbyRetryError ''Zoom bot could not enter the meeting...'' '''' False 0))"
  using lobby_failure_not_retried
    [of "always_raise (WaitingAtLobbyRetryError ''Zoom bot could not enter the meeting...'' ''''
           False 0)"
        0 "''Zoom bot could not enter the meeting...''" "''''" False 0 2 0]
  by (simp add: always_raise_def)

text \<open>
  C5.  When the processor raises a KnownError with \<open>retryable = false\<close>,
  joinMeetWithRetry rethrows it at once: the processor ran once and nothing was slept,
  for every retry count.
\<close>

theorem non_retryable_not_retried:
  assumes "processor k = Some (KnownError nm msg False m)"
  shows "joinMeetWithRetry cfg processor k retryCount =
           ([Invoke, LogError (NotRetryable nm msg)], Inl (KnownError nm msg False m))
         \<and> invocations (fst (joinMeetWithRetry cfg processor k retryCount)) = 1
         \<and> sleeps (fst (joinMeetWithRetry cfg processor k retryCount)) = []"
  using assms
  by (subst joinMeetWithRetry.simps, subst joinMeetWithRetry.simps,
      subst joinMeetWithRetry.simps) simp

theorem non_retryable_not_retried_witness:
  "always_raise (KnownError ''KnownError'' ''meeting not found'' False 5) 3
     = Some (KnownError ''KnownError'' ''meeting not found'' False 5)
   \<and> joinMeetWithRetry 2 (always_raise (KnownError ''KnownError'' ''meeting not found'' False 5))
        3 1 =
       ([Invoke, LogError (NotRetryable ''KnownError'' ''meeting not found'')],
        Inl (KnownError ''KnownError'' ''meeting not found'' False 5))"
  using non_retryable_not_retried
    [of "always_raise (KnownError ''KnownError'' ''meeting not found'' False 5)"
        3 "''KnownError''" "''meeting not found''" 5 2 1]
  by (simp add: always_raise_def)

text \<open>
  C9.  processMeetingJoin returns normally for every processor and every configured
  ceiling; when the retry loop ends with a failure, that failure is logged (as a
  KnownError exit or as an error after retries) and the last line logged carries its
  error type.
\<close>

theorem processMeetingJoin_never_rejects:
  "snd (processMeetingJoin lobbyExtendsKnown getErrorType cfg processor) = Inr ()
   \<and> (\<forall>err. snd (joinMeetWithRetry cfg processor 0 0) = Inl err \<longrightarrow>
         last (fst (processMeetingJoin lobbyExtendsKnown getErrorType cfg processor))
           = LogError (PermanentlyFailed (getErrorType err))
         \<and> (LogError (KnownErrorExit err)
              \<in> set (fst (processMeetingJoin lobbyExtendsKnown getErrorType cfg processor))
            \<or> LogError (ErrorAfterRetries err)
              \<in> set (fst (processMeetingJoin lobbyExtendsKnown getErrorType cfg processor))))"
  by (cases "joinMeetWithRetry cfg processor 0 0")
     (auto simp: processMeetingJoin_def split: sum.splits)

theorem processMeetingJoin_never_rejects_witness:
  "snd (joinMeetWithRetry 0 (always_raise (OtherError ''page crashed'')) 0 0)
     = Inl (OtherError ''page crashed'')
   \<and> snd (processMeetingJoin True (\<lambda>e. ''Error'') 0 (always_raise (OtherError ''page crashed'')))
     = Inr ()
   \<and> last (fst (processMeetingJoin True (\<lambda>e. ''Error'') 0
        (always_raise (OtherError ''page crashed''))))
     = LogError (PermanentlyFailed ''Error'')"
  using processMeetingJoin_never_rejects
    [of True "\<lambda>e. ''Error''" 0 "always_raise (OtherError ''page crashed'')"]
  by (simp add: joinMeetWithRetry.simps always_raise_def)

section \<open>The status history, verified\<close>

lemma join_catch_state:
  "fst (join_catch env st e) = (if finished \<in> set st then st else st @ [failed])"
  by (simp add: join_catch_def Let_def split: option.splits)

lemma join_cases:
  "join env = (hist, reps, res) \<Longrightarrow>
     (hist = [processing, joined, finished] \<and> res = Inr () \<and> reps = [hist])
   \<or> (hist = [processing, joined, finished] \<and> isl res \<and> reps = [hist, hist])
   \<or> (hist = [processing, failed] \<and> isl res \<and> reps = [hist])
   \<or> (hist = [processing, joined, failed] \<and> isl res \<and> reps = [hist])"
  unfolding join_def joinMeeting_def join_catch_def Let_def isWaitingAtLobbyRetryError_def
  by (auto split: option.splits if_splits error.splits)

text \<open>
  C4.  The status history of a call of ZoomBot.join starts with \<open>processing\<close> and only
  grows: every snapshot handed to the status collaborator is a prefix of the final
  history, and joinMeeting and the catch block only append.  A call that returns
  normally leaves exactly \<open>processing, joined, finished\<close>.  The catch block appends
  \<open>failed\<close> exactly when \<open>finished\<close> is not yet present.  So every final history ends
  in \<open>finished\<close> or in \<open>failed\<close> and holds exactly one of the two.
\<close>

theorem status_history:
  "(case join env of (hist, reps, res) \<Rightarrow>
      prefix [processing] hist
    \<and> (\<forall>snap \<in> set reps. prefix [processing] snap \<and> prefix snap hist)
    \<and> (res = Inr () \<longrightarrow> hist = [processing, joined, finished])
    \<and> (isl res \<longrightarrow> (failed \<in> set hist \<longleftrightarrow> finished \<notin> set hist))
    \<and> (last hist = finished \<or> last hist = failed)
    \<and> count_list hist finished + count_list hist failed = 1)
   \<and> (\<forall>st e. prefix st (fst (join_catch env st e))
          \<and> (fst (join_catch env st e) = st @ [failed] \<longleftrightarrow> finished \<notin> set st)
          \<and> (fst (join_catch env st e) = st \<longleftrightarrow> finished \<in> set st))
   \<and> (\<forall>nav rec st. prefix st (fst (joinMeeting nav rec st)))"
proof -
  obtain hist reps res where j: "join env = (hist, reps, res)"
    by (cases "join env") auto
  from join_cases [OF j] have "prefix [processing] hist
    \<and> (\<forall>snap \<in> set reps. prefix [processing] snap \<and> prefix snap hist)
    \<and> (res = Inr () \<longrightarrow> hist = [processing, joined, finished])
    \<and> (isl res \<longrightarrow> (failed \<in> set hist \<longleftrightarrow> finished \<notin> set hist))
    \<and> (last hist = finished \<or> last hist = failed)
    \<and> count_list hist finished + count_list hist failed = 1"
    by (elim disjE) auto
  moreover have "\<forall>st e. prefix st (fst (join_catch env st e))
          \<and> (fst (join_catch env st e) = st @ [failed] \<longleftrightarrow> finished \<notin> set st)
          \<and> (fst (join_catch env st e) = st \<longleftrightarrow> finished \<in> set st)"
    by (simp add: join_catch_state)
  moreover have "\<forall>nav rec st. prefix st (fst (joinMeeting nav rec st))"
    by (simp add: joinMeeting_def split: option.splits)
  ultimately show ?thesis using j by simp
qed

theorem status_history_witness:
  "join \<lparr>nav_outcome = None, record_outcome = None, patch_outcome = None,
         upload_outcome = None, patch_in_catch_outcome = None, lobby_handler_outcome = None\<rparr>
     = ([processing, joined, finished], [[processing, joined, finished]], Inr ())
   \<and> join \<lparr>nav_outcome =
            Some (WaitingAtLobbyRetryError ''Zoom bot could not enter the meeting...'' '''' False 0),
          record_outcome = None, patch_outcome = None, upload_outcome = None,
          patch_in_catch_outcome = None, lobby_handler_outcome = None\<rparr>
     = ([processing, failed], [[processing, failed]],
        Inl (WaitingAtLobbyRetryError ''Zoom bot could not enter the meeting...'' '''' False 0))
   \<and> prefix [processing] [processing, failed]
   \<and> count_list [processing, failed] finished + count_list [processing, failed] failed = 1"
proof -
  have ok: "join \<lparr>nav_outcome = None, record_outcome = None, patch_outcome = None,
         upload_outcome = None, patch_in_catch_outcome = None, lobby_handler_outcome = None\<rparr>
     = ([processing, joined, finished], [[processing, joined, finished]], Inr ())"
    by (simp add: join_def joinMeeting_def)
  have lobby: "join \<lparr>nav_outcome =
            Some (WaitingAtLobbyRetryError ''Zoom bot could not enter the meeting...'' '''' False 0),
          record_outcome = None, patch_outcome = None, upload_outcome = None,
          patch_in_catch_outcome = None, lobby_handler_outcome = None\<rparr>
     = ([processing, failed], [[processing, failed]],
        Inl (WaitingAtLobbyRetryError ''Zoom bot could not enter the meeting...'' '''' False 0))"
    by (simp add: join_def joinMeeting_def join_catch_def isWaitingAtLobbyRetryError_def Let_def)
  show ?thesis
    using status_history
      [of "\<lparr>nav_outcome = None, record_outcome = None, patch_outcome = None,
            upload_outcome = None, patch_in_catch_outcome = None,
            lobby_handler_outcome = None\<rparr>"]
      status_history
      [of "\<lparr>nav_outcome =
              Some (WaitingAtLobbyRetryError ''Zoom bot could not enter the meeting...'' ''''
                      False 0),
            record_outcome = None, patch_outcome = None, upload_outcome = None,
            patch_in_catch_outcome = None, lobby_handler_outcome = None\<rparr>"]
    unfolding ok lobby by simp
qed

section \<open>The pipeline sinks, verified\<close>

lemma FFmpegRecorder_stop_resolved_clears:
  "FFmpegRecorder_stop env p = (p', ev, Resolved) \<Longrightarrow> p' = None"
  by (cases p) (auto simp: FFmpegRecorder_stop_def Let_def split: if_splits)

lemma YouTubeLiveStreamer_stop_resolved_clears:
  "YouTubeLiveStreamer_stop env p = (p', ev, Resolved) \<Longrightarrow> p' = None"
  by (cases p) (auto simp: YouTubeLiveStreamer_stop_def Let_def split: if_splits)

text \<open>
  C6.  stop of either sink with no process handle resolves and leaves the handle empty,
  sending nothing to any process (the recorder logs one warning).  Whenever a call of
  stop has resolved, the handle it leaves is empty, so a later call, whatever the
  subprocess would do, is that same no-op.  The recorder, which keeps the handle of a
  subprocess that exited by itself, also resolves on such a handle and clears it.
\<close>

theorem stop_idempotent:
  "FFmpegRecorder_stop env None = (None, [Warn ''No ffmpeg process to stop''], Resolved)
   \<and> YouTubeLiveStreamer_stop env None = (None, [], Resolved)
   \<and> (FFmpegRecorder_stop env p = (p', ev, Resolved) \<longrightarrow>
        FFmpegRecorder_stop env' p' = (p', [Warn ''No ffmpeg process to stop''], Resolved))
   \<and> (YouTubeLiveStreamer_stop env p = (p', ev, Resolved) \<longrightarrow>
        YouTubeLiveStreamer_stop env' p' = (p', [], Resolved))
   \<and> (exitCode proc \<noteq> None \<longrightarrow>
        fst (FFmpegRecorder_stop env (Some proc)) = None
        \<and> snd (snd (FFmpegRecorder_stop env (Some proc))) = Resolved)"
proof -
  have a: "FFmpegRecorder_stop e None = (None, [Warn ''No ffmpeg process to stop''], Resolved)"
    for e
    by (simp add: FFmpegRecorder_stop_def)
  have b: "YouTubeLiveStreamer_stop e None = (None, [], Resolved)" for e
    by (simp add: YouTubeLiveStreamer_stop_def)
  have c: "fst (FFmpegRecorder_stop env (Some proc)) = None
        \<and> snd (snd (FFmpegRecorder_stop env (Some proc))) = Resolved"
    if "exitCode proc \<noteq> None"
    using that by (simp add: FFmpegRecorder_stop_def kill_def Let_def)
  show ?thesis
    using a b c FFmpegRecorder_stop_resolved_clears YouTubeLiveStreamer_stop_resolved_clears
    by blast
qed

theorem stop_idempotent_witness:
  "FFmpegRecorder_stop \<lparr>write_throws = False, exits_on_quit = True, exits_on_sigterm = True\<rparr>
      (Some \<lparr>has_stdin = True, killed = False, exitCode = None\<rparr>)
     = (None, [StdinWrite quit_text, StdinEnd, Exited], Resolved)
   \<and> FFmpegRecorder_stop \<lparr>write_throws = True, exits_on_quit = False, exits_on_sigterm = False\<rparr> None
     = (None, [Warn ''No ffmpeg process to stop''], Resolved)
   \<and> YouTubeLiveStreamer_stop \<lparr>write_throws = False, exits_on_quit = True, exits_on_sigterm = True\<rparr>
      (Some \<lparr>has_stdin = True, killed = False, exitCode = None\<rparr>)
     = (None, [StdinWrite quit_text, StdinEnd, Exited], Resolved)
   \<and> YouTubeLiveStreamer_stop \<lparr>write_throws = True, exits_on_quit = False, exits_on_sigterm = False\<rparr> None
     = (None, [], Resolved)"
  using stop_idempotent
    [of "\<lparr>write_throws = False, exits_on_quit = True, exits_on_sigterm = True\<rparr>"
        "Some \<lparr>has_stdin = True, killed = False, exitCode = None\<rparr>"
        None "[StdinWrite quit_text, StdinEnd, Exited]"
        "\<lparr>write_throws = True, exits_on_quit = False, exits_on_sigterm = False\<rparr>"
        "\<lparr>has_stdin = True, killed = False, exitCode = Some 1\<rparr>"]
  by (simp add: FFmpegRecorder_stop_def YouTubeLiveStreamer_stop_def)

text \<open>
  C7.  stop of the live sink on a running subprocess whose stdin takes the write: the
  quit text (the letter q and a newline) is written and stdin is closed first.  If the
  subprocess exits within the grace period, nothing else is sent; otherwise 15000
  milliseconds pass and only then SIGTERM is sent.  The promise is resolved exactly
  when the subprocess has exited, and the exit is the last event before it resolves;
  that last part holds for every handle and every behaviour of the subprocess.
\<close>

theorem YouTubeLiveStreamer_stop_graceful:
  assumes "has_stdin proc" and "\<not> write_throws env"
    and "exitCode proc = None" and "\<not> killed proc"
  shows "quit_text = ''q'' @ [CHR 0x0A]
    \<and> YouTubeLiveStreamer_stop env (Some proc) =
        (if exits_on_quit env
         then (None, [StdinWrite quit_text, StdinEnd, Exited], Resolved)
         else if exits_on_sigterm env
         then (None, [StdinWrite quit_text, StdinEnd, Wait 15000,
                      Warn ''ffmpeg live did not exit, sending SIGTERM'', Kill SIGTERM, Exited],
               Resolved)
         else (Some (proc\<lparr>killed := True\<rparr>),
               [StdinWrite quit_text, StdinEnd, Wait 15000,
                Warn ''ffmpeg live did not exit, sending SIGTERM'', Kill SIGTERM],
               Pending))
    \<and> (snd (snd (YouTubeLiveStreamer_stop env (Some proc))) = Resolved
         \<longleftrightarrow> last (fst (snd (YouTubeLiveStreamer_stop env (Some proc)))) = Exited)
    \<and> (\<forall>env' proc'. snd (snd (YouTubeLiveStreamer_stop env' (Some proc'))) = Resolved \<longrightarrow>
           last (fst (snd (YouTubeLiveStreamer_stop env' (Some proc')))) = Exited)"
proof -
  have always: "last (fst (snd (YouTubeLiveStreamer_stop env' (Some proc')))) = Exited"
    if "snd (snd (YouTubeLiveStreamer_stop env' (Some proc'))) = Resolved" for env' proc'
    using that by (auto simp: YouTubeLiveStreamer_stop_def Let_def split: if_splits)
  show ?thesis
    using assms always by (simp add: YouTubeLiveStreamer_stop_def kill_def quit_text_def)
qed

theorem YouTubeLiveStreamer_stop_graceful_witness:
  "has_stdin \<lparr>has_stdin = True, killed = False, exitCode = None\<rparr>
   \<and> \<not> write_throws \<lparr>write_throws = False, exits_on_quit = False, exits_on_sigterm = True\<rparr>
   \<and> exitCode \<lparr>has_stdin = True, killed = False, exitCode = None\<rparr> = None
   \<and> \<not> killed \<lparr>has_stdin = True, killed = False, exitCode = None\<rparr>
   \<and> YouTubeLiveStreamer_stop \<lparr>write_throws = False, exits_on_quit = False, exits_on_sigterm = True\<rparr>
        (Some \<lparr>has_stdin = True, killed = False, exitCode = None\<rparr>)
     = (None, [StdinWrite quit_text, StdinEnd, Wait 15000,
               Warn ''ffmpeg live did not exit, sending SIGTERM'', Kill SIGTERM, Exited],
        Resolved)"
  using YouTubeLiveStreamer_stop_graceful
    [of "\<lparr>has_stdin = True, killed = False, exitCode = None\<rparr>"
        "\<lparr>write_throws = False, exits_on_quit = False, exits_on_sigterm = True\<rparr>"]
  by simp

text \<open>
  C8.  writeChunk is rejected with "ffmpeg live process is not running" when there is no
  process handle or the handle has no stdin, and then writes nothing.  Otherwise, when
  the write does not raise, the chunk is written; the promise resolves at once if stdin
  accepted the write, and if it did not, it resolves after the drain event and stays
  pending as long as no drain event fires.
\<close>

theorem writeChunk_backpressure:
  "(process = None \<or> (\<exists>p. process = Some p \<and> \<not> has_stdin p) \<longrightarrow>
      writeChunk env process chunk = ([], Rejected ''ffmpeg live process is not running''))
   \<and> (\<forall>p. process = Some p \<and> has_stdin p \<and> write_raises env = None \<longrightarrow>
        (canWrite env \<longrightarrow> writeChunk env process chunk = ([StdinChunk chunk], Resolved))
      \<and> (\<not> canWrite env \<and> drain_fires env \<longrightarrow>
            writeChunk env process chunk = ([StdinChunk chunk, Drain], Resolved))
      \<and> (\<not> canWrite env \<and> \<not> drain_fires env \<longrightarrow>
            writeChunk env process chunk = ([StdinChunk chunk], Pending)))"
  by (auto simp: writeChunk_def)

theorem writeChunk_backpressure_witness:
  "writeChunk \<lparr>write_raises = None, canWrite = False, drain_fires = True\<rparr>
      (Some \<lparr>has_stdin = True, killed = False, exitCode = None\<rparr>) [26, 69, 223, 163]
     = ([StdinChunk [26, 69, 223, 163], Drain], Resolved)
   \<and> writeChunk \<lparr>write_raises = None, canWrite = True, drain_fires = False\<rparr>
      (Some \<lparr>has_stdin = True, killed = False, exitCode = None\<rparr>) [26, 69, 223, 163]
     = ([StdinChunk [26, 69, 223, 163]], Resolved)
   \<and> writeChunk \<lparr>write_raises = None, canWrite = True, drain_fires = False\<rparr>
      None [26, 69, 223, 163]
     = ([], Rejected ''ffmpeg live process is not running'')"
  using writeChunk_backpressure
    [of "Some \<lparr>has_stdin = True, killed = False, exitCode = None\<rparr>"
        "\<lparr>write_raises = None, canWrite = False, drain_fires = True\<rparr>" "[26, 69, 223, 163]"]
    writeChunk_backpressure
    [of "Some \<lparr>has_stdin = True, killed = False, exitCode = None\<rparr>"
        "\<lparr>write_raises = None, canWrite = True, drain_fires = False\<rparr>" "[26, 69, 223, 163]"]
    writeChunk_backpressure
    [of None "\<lparr>write_raises = None, canWrite = True, drain_fires = False\<rparr>"
        "[26, 69, 223, 163]"]
  by simp

section \<open>The in-page recorder, verified\<close>

lemma delivered_append: "delivered (xs @ ys) = delivered xs @ delivered ys"
  by (induction xs rule: delivered.induct) auto

lemma delivered_ondataavailable:
  "delivered (ondataavailable ev) =
     (if length (data ev) \<noteq> 0 \<and> \<not> buffer_fails ev then [data ev] else [])"
  by (simp add: ondataavailable_def)

text \<open>
  C10.  Whatever chunks the media recorder produces, every chunk handed on to
  sendChunkToServer has a size greater than zero: the handler returns before sending
  when the size is zero.
\<close>

theorem forwarded_chunks_nonempty:
  "\<forall>c \<in> set (delivered (recorder_events evs)). 0 < length c"
proof (induction evs)
  case Nil
  show ?case by simp
next
  case (Cons ev evs)
  then show ?case
    by (auto simp: delivered_append delivered_ondataavailable)
qed

theorem forwarded_chunks_nonempty_witness:
  "delivered (recorder_events
      [\<lparr>data = [], buffer_fails = False, send_fails = False\<rparr>,
       \<lparr>data = [26, 69], buffer_fails = False, send_fails = False\<rparr>]) = [[26, 69]]
   \<and> (0::nat) < length [26 :: byte, 69]"
  using forwarded_chunks_nonempty
    [of "[\<lparr>data = [], buffer_fails = False, send_fails = False\<rparr>,
          \<lparr>data = [26, 69], buffer_fails = False, send_fails = False\<rparr>]"]
  by (simp add: ondataavailable_def)

subsection \<open>The duration ceiling\<close>

lemma timer_delay_le: "timer_delay d \<le> d"
  by (simp add: timer_delay_def)

lemma timer_delay_small: "d < 2 ^ 31 \<Longrightarrow> timer_delay d = d"
  by (simp add: timer_delay_def)

lemma ceiling_inv_start:
  "ceiling_inv (clock init) (clock init + timer_delay d) (startRecording True d init)"
  by (simp add: ceiling_inv_def startRecording_def)

lemma ceiling_inv_stop: "ceiling_inv t0 dl s \<Longrightarrow> ceiling_inv t0 dl (stopTheRecording s)"
  by (auto simp: ceiling_inv_def stopTheRecording_def split: if_splits)

lemma ceiling_inv_advance: "ceiling_inv t0 dl s \<Longrightarrow> ceiling_inv t0 dl (advance_to t s)"
  by (auto simp: ceiling_inv_def advance_to_def stopTheRecording_def max_def
           split: if_splits option.splits)

lemma ceiling_inv_run: "ceiling_inv t0 dl s \<Longrightarrow> ceiling_inv t0 dl (run_page ds s)"
  by (induction ds arbitrary: s) (simp_all add: ceiling_inv_stop ceiling_inv_advance)

lemma ceiling_inv_after:
  assumes "ceiling_inv t0 dl s" and "dl \<le> t"
  shows "\<not> recorder_active (advance_to t s)
       \<and> (\<exists>ts. stopped_at (advance_to t s) = Some ts \<and> ts \<le> dl)
       \<and> started_at (advance_to t s) = Some t0"
  using assms
  by (auto simp: ceiling_inv_def advance_to_def stopTheRecording_def max_def
           split: if_splits option.splits)

text \<open>
  C3.  Let the recorder be started with the ceiling of \<open>maxRecordingDuration\<close> minutes
  (180 when the setting is absent), and let \<open>dl\<close> be the start time plus that ceiling.
  Whatever end conditions the page detects, and also when it detects none, at every time
  from \<open>dl\<close> on the recorder has stopped, and it stopped no later than \<open>dl\<close>.  When the
  ceiling fits the timer's 32-bit delay, the timer is armed for exactly \<open>dl\<close>; with no
  end condition detected the recorder runs until \<open>dl\<close> and is stopped by the timer at
  \<open>dl\<close>, which reports the end of the meeting once.
\<close>

theorem duration_ceiling:
  assumes "s0 = startRecording True (recording_duration (maxRecordingDuration env_minutes)) init"
    and "dl = clock init + maxRecordingDuration env_minutes * 60000"
  shows "maxRecordingDuration None = 180
    \<and> (\<forall>ds t. dl \<le> t \<longrightarrow>
          \<not> recorder_active (advance_to t (run_page ds s0))
          \<and> started_at (advance_to t (run_page ds s0)) = Some (clock init)
          \<and> (\<exists>ts. stopped_at (advance_to t (run_page ds s0)) = Some ts \<and> ts \<le> dl))
    \<and> (maxRecordingDuration env_minutes * 60000 < 2 ^ 31 \<longrightarrow>
          timeoutId s0 = Some dl
          \<and> (\<forall>t. t < dl \<longrightarrow> recorder_active (advance_to t s0))
          \<and> (\<forall>t. dl \<le> t \<longrightarrow>
                \<not> recorder_active (advance_to t s0)
                \<and> stopped_at (advance_to t s0) = Some dl
                \<and> meet_end_calls (advance_to t s0) = Suc (meet_end_calls init)))"
proof -
  let ?D = "maxRecordingDuration env_minutes * 60000"
  have d: "recording_duration (maxRecordingDuration env_minutes) = ?D"
    by (simp add: recording_duration_def)
  have s0: "s0 = startRecording True ?D init"
    using assms(1) d by simp
  have a: "maxRecordingDuration None = 180"
    by (simp add: maxRecordingDuration_def)
  have inv: "ceiling_inv (clock init) (clock init + timer_delay ?D) s0"
    unfolding s0 by (rule ceiling_inv_start)
  have le: "clock init + timer_delay ?D \<le> dl"
    using assms(2) timer_delay_le [of ?D] by simp
  have b: "\<not> recorder_active (advance_to t (run_page ds s0))
          \<and> started_at (advance_to t (run_page ds s0)) = Some (clock init)
          \<and> (\<exists>ts. stopped_at (advance_to t (run_page ds s0)) = Some ts \<and> ts \<le> dl)"
    if "dl \<le> t" for ds t
  proof -
    have "clock init + timer_delay ?D \<le> t" using le that by simp
    from ceiling_inv_after [OF ceiling_inv_run [OF inv] this, of ds] le
    show ?thesis by (meson order_trans)
  qed
  have c: "timeoutId s0 = Some dl
          \<and> (\<forall>t. t < dl \<longrightarrow> recorder_active (advance_to t s0))
          \<and> (\<forall>t. dl \<le> t \<longrightarrow>
                \<not> recorder_active (advance_to t s0)
                \<and> stopped_at (advance_to t s0) = Some dl
                \<and> meet_end_calls (advance_to t s0) = Suc (meet_end_calls init))"
    if small: "?D < 2 ^ 31"
    using timer_delay_small [OF small] assms(2)
    by (simp add: s0 startRecording_def advance_to_def stopTheRecording_def)
  show ?thesis using a b c by blast
qed

theorem duration_ceiling_witness:
  "maxRecordingDuration None * 60000 < 2 ^ 31
   \<and> (10800000::nat) \<le> 10800000
   \<and> \<not> recorder_active (advance_to 10800000
         (startRecording True (recording_duration (maxRecordingDuration None))
            \<lparr>clock = 0, recorder_active = False, started_at = None, stopped_at = None,
             timeoutId = None, meet_end_calls = 0\<rparr>))
   \<and> stopped_at (advance_to 10800000
         (startRecording True (recording_duration (maxRecordingDuration None))
            \<lparr>clock = 0, recorder_active = False, started_at = None, stopped_at = None,
             timeoutId = None, meet_end_calls = 0\<rparr>)) = Some 10800000"
  using duration_ceiling [of
      "startRecording True (recording_duration (maxRecordingDuration None))
         \<lparr>clock = 0, recorder_active = False, started_at = None, stopped_at = None,
          timeoutId = None, meet_end_calls = 0\<rparr>"
      None
      "\<lparr>clock = 0, recorder_active = False, started_at = None, stopped_at = None,
          timeoutId = None, meet_end_calls = 0\<rparr>"
      10800000]
  by (simp add: maxRecordingDuration_def)

end
